theory Spec2Isabelle
  imports Main Complex_Main "HOL-Library.Word"
begin

section \<open>Value types of the parameter system\<close>

text \<open>
  The C++ value types that a parameter can hold. \<open>double\<close> and \<open>float\<close> values are
  only stored and copied by the code below, never computed on, so both are carried as
  reals; \<open>int\<close> and \<open>unsigned int\<close> are 32-bit words (\<open>sint\<close> reads an \<open>int\<close>).
\<close>

type_synonym double = real
type_synonym float = real
type_synonym int32 = "32 word"
type_synonym uint32 = "32 word"

datatype Vector3 = Vector3 (v3_x: double) (v3_y: double) (v3_z: double)
datatype Vector2i = Vector2i (v2i_x: int32) (v2i_y: int32)
datatype Vector2d = Vector2d (v2d_x: double) (v2d_y: double)
datatype Quaternion = Quaternion (q_x: double) (q_y: double) (q_z: double) (q_w: double)
datatype Pose = Pose (pose_pos: Vector3) (pose_rot: Quaternion)
datatype Color = Color (col_r: float) (col_g: float) (col_b: float) (col_a: float)
datatype Time = Time (t_sec: int32) (t_nsec: int32)

text \<open>
  The member \<open>value\<close> of the template subclass \<open>ParamT<T>\<close>, one constructor for
  each instantiation \<open>T\<close> that \<open>Param::Get\<close> casts to.
\<close>

datatype tvalue =
    BoolV bool
  | IntV int32
  | UIntV uint32
  | FloatV float
  | DoubleV double
  | CharV char
  | StrV string
  | Vector3V Vector3
  | Vector2iV Vector2i
  | Vector2dV Vector2d
  | QuaternionV Quaternion
  | PoseV Pose
  | ColorV Color
  | TimeV Time

section \<open>Param: the type-erased parameter handle\<close>

text \<open>
  The members of the base class \<open>Param\<close>; \<open>ParamT\<close> extends it with the typed
  payload, as the subclass \<open>ParamT<T>\<close> does. The member \<open>set\<close> is named
  \<open>set_flag\<close> here.
\<close>

record Param =
  key :: string
  required :: bool
  set_flag :: bool
  typeName :: string
  description :: string

record ParamT = Param +
  val :: tvalue

text \<open>
  What goes wrong without a return value: a C-style downcast to \<open>ParamT<T>\<close> of an
  object that is a \<open>ParamT\<close> of another type, and an unchecked \<open>operator[]\<close> read
  past the end of a \<open>std::vector\<close>. Both are undefined behaviour in C++.
\<close>

datatype error = BadDowncast | OutOfRange

text \<open>The messages written to \<open>sdferr\<close>, by the kind of message and its arguments.\<close>

datatype sdf_msg =
    NotA string string
  | NotADouble string string
  | WrongPieceCount nat string
  | InvalidPiece string string nat

subsection \<open>The process-wide list \<open>Param::params\<close> and the constructor\<close>

text \<open>
  \<open>Param::params\<close> is a pointer to a vector of \<open>Param*\<close>, \<open>NULL\<close> at start:
  \<open>None\<close> is the null pointer, handles are referred to by address.
\<close>

type_synonym Param_ptr = nat
type_synonym params = "Param_ptr list option"

definition Param_ctor :: "Param_ptr \<Rightarrow> params \<Rightarrow> Param \<times> params" where
  "Param_ctor newParam ps =
     (\<lparr>key = [], required = False, set_flag = False, typeName = [], description = []\<rparr>,
      (case ps of None \<Rightarrow> None | Some l \<Rightarrow> Some (l @ [newParam])))"

text \<open>Constructing handles one after the other, each at its own address.\<close>

fun construct_all :: "Param_ptr list \<Rightarrow> params \<Rightarrow> params" where
  "construct_all [] ps = ps"
| "construct_all (a # as) ps = construct_all as (snd (Param_ctor a ps))"

subsection \<open>Type-tag predicates\<close>

definition GetTypeName :: "'a Param_scheme \<Rightarrow> string" where
  "GetTypeName this = typeName this"

definition IsBool :: "'a Param_scheme \<Rightarrow> bool" where
  "IsBool this = (GetTypeName this = ''bool'')"

definition IsInt :: "'a Param_scheme \<Rightarrow> bool" where
  "IsInt this = (GetTypeName this = ''int'')"

definition IsUInt :: "'a Param_scheme \<Rightarrow> bool" where
  "IsUInt this = (GetTypeName this = ''unsigned int'')"

definition IsFloat :: "'a Param_scheme \<Rightarrow> bool" where
  "IsFloat this = (GetTypeName this = ''float'')"

definition IsDouble :: "'a Param_scheme \<Rightarrow> bool" where
  "IsDouble this = (GetTypeName this = ''double'')"

definition IsChar :: "'a Param_scheme \<Rightarrow> bool" where
  "IsChar this = (GetTypeName this = ''char'')"

definition IsStr :: "'a Param_scheme \<Rightarrow> bool" where
  "IsStr this = (GetTypeName this = ''string'')"

definition IsVector3 :: "'a Param_scheme \<Rightarrow> bool" where
  "IsVector3 this = (GetTypeName this = ''vector3'')"

definition IsVector2i :: "'a Param_scheme \<Rightarrow> bool" where
  "IsVector2i this = (GetTypeName this = ''vector2i'')"

definition IsVector2d :: "'a Param_scheme \<Rightarrow> bool" where
  "IsVector2d this = (GetTypeName this = ''vector2d'')"

definition IsQuaternion :: "'a Param_scheme \<Rightarrow> bool" where
  "IsQuaternion this = (GetTypeName this = ''quaternion'')"

definition IsPose :: "'a Param_scheme \<Rightarrow> bool" where
  "IsPose this = (GetTypeName this = ''pose'')"

definition IsColor :: "'a Param_scheme \<Rightarrow> bool" where
  "IsColor this = (GetTypeName this = ''color'')"

definition IsTime :: "'a Param_scheme \<Rightarrow> bool" where
  "IsTime this = (GetTypeName this = ''time'')"

subsection \<open>The downcast \<open>((ParamT<T>*)this)->GetValue()\<close>\<close>

text \<open>
  Modelled from the spec: \<open>ParamT<T>::GetValue\<close> (\<open>sdf/interface/Param.hh\<close> is not
  among the sources) returns the current payload. The cast in front of it is
  unchecked: on an object whose payload is of another type it is \<open>None\<close> here.
\<close>

definition GetValue_bool :: "ParamT \<Rightarrow> bool option" where
  "GetValue_bool this = (case val this of BoolV b \<Rightarrow> Some b | _ \<Rightarrow> None)"

definition GetValue_int :: "ParamT \<Rightarrow> int32 option" where
  "GetValue_int this = (case val this of IntV i \<Rightarrow> Some i | _ \<Rightarrow> None)"

definition GetValue_uint :: "ParamT \<Rightarrow> uint32 option" where
  "GetValue_uint this = (case val this of UIntV u \<Rightarrow> Some u | _ \<Rightarrow> None)"

definition GetValue_float :: "ParamT \<Rightarrow> float option" where
  "GetValue_float this = (case val this of FloatV f \<Rightarrow> Some f | _ \<Rightarrow> None)"

definition GetValue_double :: "ParamT \<Rightarrow> double option" where
  "GetValue_double this = (case val this of DoubleV d \<Rightarrow> Some d | _ \<Rightarrow> None)"

definition GetValue_char :: "ParamT \<Rightarrow> char option" where
  "GetValue_char this = (case val this of CharV c \<Rightarrow> Some c | _ \<Rightarrow> None)"

definition GetValue_string :: "ParamT \<Rightarrow> string option" where
  "GetValue_string this = (case val this of StrV s \<Rightarrow> Some s | _ \<Rightarrow> None)"

definition GetValue_Vector3 :: "ParamT \<Rightarrow> Vector3 option" where
  "GetValue_Vector3 this = (case val this of Vector3V v \<Rightarrow> Some v | _ \<Rightarrow> None)"

definition GetValue_Vector2i :: "ParamT \<Rightarrow> Vector2i option" where
  "GetValue_Vector2i this = (case val this of Vector2iV v \<Rightarrow> Some v | _ \<Rightarrow> None)"

definition GetValue_Vector2d :: "ParamT \<Rightarrow> Vector2d option" where
  "GetValue_Vector2d this = (case val this of Vector2dV v \<Rightarrow> Some v | _ \<Rightarrow> None)"

definition GetValue_Quaternion :: "ParamT \<Rightarrow> Quaternion option" where
  "GetValue_Quaternion this = (case val this of QuaternionV q \<Rightarrow> Some q | _ \<Rightarrow> None)"

definition GetValue_Pose :: "ParamT \<Rightarrow> Pose option" where
  "GetValue_Pose this = (case val this of PoseV p \<Rightarrow> Some p | _ \<Rightarrow> None)"

definition GetValue_Color :: "ParamT \<Rightarrow> Color option" where
  "GetValue_Color this = (case val this of ColorV c \<Rightarrow> Some c | _ \<Rightarrow> None)"

definition GetValue_Time :: "ParamT \<Rightarrow> Time option" where
  "GetValue_Time this = (case val this of TimeV t \<Rightarrow> Some t | _ \<Rightarrow> None)"

subsection \<open>The scalar \<open>Param::Get\<close> overloads\<close>

text \<open>
  A \<open>Get\<close> takes the handle and the caller's output variable as it is before the
  call; it gives back the returned flag, the output variable after the call and the
  messages written to \<open>sdferr\<close>.
\<close>

type_synonym 'a get_result = "error + (bool \<times> 'a \<times> sdf_msg list)"

definition Get_bool :: "ParamT \<Rightarrow> bool \<Rightarrow> bool get_result" where
  "Get_bool this out =
     (if IsBool this then
        (case GetValue_bool this of None \<Rightarrow> Inl BadDowncast | Some v \<Rightarrow> Inr (True, v, []))
      else Inr (False, out, [NotA (key this) ''a bool'']))"

definition Get_double :: "ParamT \<Rightarrow> double \<Rightarrow> double get_result" where
  "Get_double this out =
     (if IsDouble this then
        (case GetValue_double this of None \<Rightarrow> Inl BadDowncast | Some v \<Rightarrow> Inr (True, v, []))
      else Inr (False, out, [NotADouble (key this) (typeName this)]))"

definition Get_float :: "ParamT \<Rightarrow> float \<Rightarrow> float get_result" where
  "Get_float this out =
     (if IsFloat this then
        (case GetValue_float this of None \<Rightarrow> Inl BadDowncast | Some v \<Rightarrow> Inr (True, v, []))
      else Inr (False, out, [NotA (key this) ''a float'']))"

definition Get_Color :: "ParamT \<Rightarrow> Color \<Rightarrow> Color get_result" where
  "Get_Color this out =
     (if IsColor this then
        (case GetValue_Color this of None \<Rightarrow> Inl BadDowncast | Some v \<Rightarrow> Inr (True, v, []))
      else Inr (False, out, [NotA (key this) ''a color'']))"

definition Get_Time :: "ParamT \<Rightarrow> Time \<Rightarrow> Time get_result" where
  "Get_Time this out =
     (if IsTime this then
        (case GetValue_Time this of None \<Rightarrow> Inl BadDowncast | Some v \<Rightarrow> Inr (True, v, []))
      else Inr (False, out, [NotA (key this) ''a time'']))"

definition Get_Pose :: "ParamT \<Rightarrow> Pose \<Rightarrow> Pose get_result" where
  "Get_Pose this out =
     (if IsPose this then
        (case GetValue_Pose this of None \<Rightarrow> Inl BadDowncast | Some v \<Rightarrow> Inr (True, v, []))
      else Inr (False, out, [NotA (key this) ''a pose'']))"

definition Get_int :: "ParamT \<Rightarrow> int32 \<Rightarrow> int32 get_result" where
  "Get_int this out =
     (if IsInt this then
        (case GetValue_int this of None \<Rightarrow> Inl BadDowncast | Some v \<Rightarrow> Inr (True, v, []))
      else Inr (False, out, [NotA (key this) ''an int'']))"

definition Get_uint :: "ParamT \<Rightarrow> uint32 \<Rightarrow> uint32 get_result" where
  "Get_uint this out =
     (if IsUInt this then
        (case GetValue_uint this of None \<Rightarrow> Inl BadDowncast | Some v \<Rightarrow> Inr (True, v, []))
      else Inr (False, out, [NotA (key this) ''an unsigned int'']))"

definition Get_char :: "ParamT \<Rightarrow> char \<Rightarrow> char get_result" where
  "Get_char this out =
     (if IsChar this then
        (case GetValue_char this of None \<Rightarrow> Inl BadDowncast | Some v \<Rightarrow> Inr (True, v, []))
      else Inr (False, out, [NotA (key this) ''an unsigned int'']))"

definition Get_string :: "ParamT \<Rightarrow> string \<Rightarrow> string get_result" where
  "Get_string this out =
     (if IsStr this then
        (case GetValue_string this of None \<Rightarrow> Inl BadDowncast | Some v \<Rightarrow> Inr (True, v, []))
      else Inr (False, out, [NotA (key this) ''a string'']))"

definition Get_Quaternion :: "ParamT \<Rightarrow> Quaternion \<Rightarrow> Quaternion get_result" where
  "Get_Quaternion this out =
     (if IsQuaternion this then
        (case GetValue_Quaternion this of None \<Rightarrow> Inl BadDowncast | Some v \<Rightarrow> Inr (True, v, []))
      else Inr (False, out, [NotA (key this) ''a quaternion'']))"

subsection \<open>The vector \<open>Param::Get\<close> overloads and their string fallback\<close>

text \<open>
  Modelled from the spec: \<open>ParamT<T>::GetAsString\<close> (\<open>sdf/interface/Param.hh\<close> is
  not among the sources) gives the handle's current string form. It writes the
  payload to a string, so a string payload is its own string form; the printing of
  the other payloads is the parameter \<open>to_string\<close>.
\<close>

definition GetAsString :: "(tvalue \<Rightarrow> string) \<Rightarrow> ParamT \<Rightarrow> string" where
  "GetAsString to_string this = (case val this of StrV s \<Rightarrow> s | v \<Rightarrow> to_string v)"

text \<open>
  \<open>boost::split(pieces, str, pred)\<close> with its default \<open>token_compress_off\<close>: the
  input is cut at every character that satisfies \<open>pred\<close>, so \<open>n\<close> separators give
  \<open>n + 1\<close> pieces, empty ones between adjacent separators and at either end.
\<close>

definition is_any_of :: "string \<Rightarrow> char \<Rightarrow> bool" where
  "is_any_of cs c = (c \<in> set cs)"

fun boost_split :: "(char \<Rightarrow> bool) \<Rightarrow> string \<Rightarrow> string list" where
  "boost_split pred [] = [[]]"
| "boost_split pred (c # cs) =
     (if pred c then [] # boost_split pred cs
      else (case boost_split pred cs of
              [] \<Rightarrow> [[c]]
            | t # ts \<Rightarrow> (c # t) # ts))"

text \<open>\<open>std::string::c_str\<close> read as a C string: the characters before the first NUL.\<close>

definition c_str :: "string \<Rightarrow> string" where
  "c_str s = takeWhile (\<lambda>c. c \<noteq> CHR 0x00) s"

text \<open>
  The loop over the pieces. \<open>lexical_cast\<close> is \<open>boost::lexical_cast<T>\<close>, \<open>None\<close>
  where it throws \<open>bad_lexical_cast\<close>; the loop then stops with the piece and its
  index, which the error message prints. An empty piece adds no element.
\<close>

fun parse_pieces ::
  "(string \<Rightarrow> 'a option) \<Rightarrow> string list \<Rightarrow> nat \<Rightarrow> 'a list \<Rightarrow> (string \<times> nat) + 'a list" where
  "parse_pieces lexical_cast [] i elements = Inr elements"
| "parse_pieces lexical_cast (p # ps) i elements =
     (if p \<noteq> [] then
        (case lexical_cast (c_str p) of
           None \<Rightarrow> Inl (p, i)
         | Some e \<Rightarrow> parse_pieces lexical_cast ps (Suc i) (elements @ [e]))
      else parse_pieces lexical_cast ps (Suc i) elements)"

text \<open>\<open>elements[i]\<close> on a \<open>std::vector\<close>: no value past the end.\<close>

definition element_at :: "'a list \<Rightarrow> nat \<Rightarrow> 'a option" where
  "element_at elements i = (if i < length elements then Some (elements ! i) else None)"

definition Get_Vector3 ::
  "(tvalue \<Rightarrow> string) \<Rightarrow> (string \<Rightarrow> double option) \<Rightarrow> ParamT \<Rightarrow> Vector3 \<Rightarrow> Vector3 get_result" where
  "Get_Vector3 to_string lexical_cast this out =
     (if IsVector3 this then
        (case GetValue_Vector3 this of None \<Rightarrow> Inl BadDowncast | Some v \<Rightarrow> Inr (True, v, []))
      else
        (let val_str = GetAsString to_string this;
             pieces = boost_split (is_any_of '' '') val_str
         in if length pieces \<noteq> 3 then Inr (False, out, [WrongPieceCount 3 ''Vector3''])
            else
              (case parse_pieces lexical_cast pieces 0 [] of
                 Inl (p, i) \<Rightarrow> Inr (False, out, [InvalidPiece p ''Vector3'' i])
               | Inr elements \<Rightarrow>
                   (case element_at elements 0 of
                      None \<Rightarrow> Inl OutOfRange
                    | Some e0 \<Rightarrow>
                   (case element_at elements 1 of
                      None \<Rightarrow> Inl OutOfRange
                    | Some e1 \<Rightarrow>
                   (case element_at elements 2 of
                      None \<Rightarrow> Inl OutOfRange
                    | Some e2 \<Rightarrow> Inr (True, Vector3 e0 e1 e2, [])))))))"

definition Get_Vector2i ::
  "(tvalue \<Rightarrow> string) \<Rightarrow> (string \<Rightarrow> int32 option) \<Rightarrow> ParamT \<Rightarrow> Vector2i \<Rightarrow> Vector2i get_result" where
  "Get_Vector2i to_string lexical_cast this out =
     (if IsVector2i this then
        (case GetValue_Vector2i this of None \<Rightarrow> Inl BadDowncast | Some v \<Rightarrow> Inr (True, v, []))
      else
        (let val_str = GetAsString to_string this;
             pieces = boost_split (is_any_of '' '') val_str
         in if length pieces \<noteq> 2 then Inr (False, out, [WrongPieceCount 2 ''Vector2i''])
            else
              (case parse_pieces lexical_cast pieces 0 [] of
                 Inl (p, i) \<Rightarrow> Inr (False, out, [InvalidPiece p ''Vector2i'' i])
               | Inr elements \<Rightarrow>
                   (case element_at elements 0 of
                      None \<Rightarrow> Inl OutOfRange
                    | Some e0 \<Rightarrow>
                   (case element_at elements 1 of
                      None \<Rightarrow> Inl OutOfRange
                    | Some e1 \<Rightarrow> Inr (True, Vector2i e0 e1, []))))))"

definition Get_Vector2d ::
  "(tvalue \<Rightarrow> string) \<Rightarrow> (string \<Rightarrow> double option) \<Rightarrow> ParamT \<Rightarrow> Vector2d \<Rightarrow> Vector2d get_result" where
  "Get_Vector2d to_string lexical_cast this out =
     (if IsVector2d this then
        (case GetValue_Vector2d this of None \<Rightarrow> Inl BadDowncast | Some v \<Rightarrow> Inr (True, v, []))
      else
        (let val_str = GetAsString to_string this;
             pieces = boost_split (is_any_of '' '') val_str
         in if length pieces \<noteq> 2 then Inr (False, out, [WrongPieceCount 2 ''Vector2d''])
            else
              (case parse_pieces lexical_cast pieces 0 [] of
                 Inl (p, i) \<Rightarrow> Inr (False, out, [InvalidPiece p ''Vector2d'' i])
               | Inr elements \<Rightarrow>
                   (case element_at elements 0 of
                      None \<Rightarrow> Inl OutOfRange
                    | Some e0 \<Rightarrow>
                   (case element_at elements 1 of
                      None \<Rightarrow> Inl OutOfRange
                    | Some e1 \<Rightarrow> Inr (True, Vector2d e0 e1, []))))))"

text \<open>
  \<open>boost::lexical_cast\<close> on plain decimal integers, for the concrete evaluations
  below: an optional sign followed by one or more decimal digits. On a string of
  this form \<open>lexical_cast<int>\<close> gives the number if it fits 32 bits and throws
  otherwise, and \<open>lexical_cast<double>\<close> gives the number, exactly while its
  magnitude is at most \<open>2 ^ 53\<close>. Every other string is \<open>None\<close> here, which the
  library is not (it also reads fractions, exponents and larger numbers), so both
  functions are applied below to strings of this form only.
\<close>

definition digit_of :: "char \<Rightarrow> nat option" where
  "digit_of c =
     (let n = (of_char c :: nat)
      in if of_char CHR ''0'' \<le> n \<and> n \<le> of_char CHR ''9''
         then Some (n - of_char CHR ''0'') else None)"

fun digits_value :: "string \<Rightarrow> nat \<Rightarrow> nat option" where
  "digits_value [] acc = Some acc"
| "digits_value (c # cs) acc =
     (case digit_of c of None \<Rightarrow> None | Some d \<Rightarrow> digits_value cs (10 * acc + d))"

definition decimal_value :: "string \<Rightarrow> int option" where
  "decimal_value s =
     (case s of
        [] \<Rightarrow> None
      | c # cs \<Rightarrow>
          (if c = CHR ''-'' then
             (if cs = [] then None else map_option (\<lambda>n. - int n) (digits_value cs 0))
           else if c = CHR ''+'' then
             (if cs = [] then None else map_option int (digits_value cs 0))
           else map_option int (digits_value s 0)))"

definition lexical_cast_decimal_double :: "string \<Rightarrow> double option" where
  "lexical_cast_decimal_double s =
     (case decimal_value s of
        None \<Rightarrow> None
      | Some n \<Rightarrow> (if \<bar>n\<bar> \<le> 2 ^ 53 then Some (real_of_int n) else None))"

definition lexical_cast_decimal_int :: "string \<Rightarrow> int32 option" where
  "lexical_cast_decimal_int s =
     (case decimal_value s of
        None \<Rightarrow> None
      | Some n \<Rightarrow> (if - (2 ^ 31) \<le> n \<and> n < 2 ^ 31 then Some (word_of_int n) else None))"

section \<open>PhysicsEngine: the string-keyed parameter interface\<close>

subsection \<open>Type-erased values and update messages\<close>

text \<open>The protobuf message \<open>msgs::Vector3d\<close>: a type of its own, not \<open>math::Vector3\<close>.\<close>

datatype msgs_Vector3d = msgs_Vector3d (m_x: double) (m_y: double) (m_z: double)

text \<open>
  A \<open>boost::any\<close> by the type of what it holds: nothing, one of the types that
  \<open>OnPhysicsMsg\<close> stores or \<open>SetParam\<close> casts to, or a value of any other type.
\<close>

datatype any =
    any_empty
  | any_double double
  | any_int int32
  | any_string string
  | any_msgs_Vector3d msgs_Vector3d
  | any_bool bool
  | any_float float
  | any_Vector3 Vector3
  | any_other

text \<open>\<open>boost::any_cast<T>\<close>: \<open>None\<close> where it throws \<open>bad_any_cast\<close>.\<close>

definition any_cast_double :: "any \<Rightarrow> double option" where
  "any_cast_double a = (case a of any_double d \<Rightarrow> Some d | _ \<Rightarrow> None)"

definition any_cast_Vector3 :: "any \<Rightarrow> Vector3 option" where
  "any_cast_Vector3 a = (case a of any_Vector3 v \<Rightarrow> Some v | _ \<Rightarrow> None)"

text \<open>
  The enumeration \<open>msgs::NamedParam_Type\<close>; \<open>OTHER_TYPE\<close> stands for an enumerator
  that the switch of \<open>OnPhysicsMsg\<close> does not list.
\<close>

datatype NamedParam_Type =
    DOUBLE_TYPE | INT_TYPE | STRING_TYPE | VECTOR3D_TYPE | BOOL_TYPE | FLOAT_TYPE | OTHER_TYPE

text \<open>
  One entry of an update message. Each optional protobuf field is an option:
  \<open>has_f\<close> says whether it is populated, and the accessor gives the field's default
  when it is not.
\<close>

record NamedParam =
  name :: string
  param_type :: "NamedParam_Type option"
  opt_double_value :: "double option"
  opt_int_value :: "int32 option"
  opt_string_value :: "string option"
  opt_vector3d :: "msgs_Vector3d option"
  opt_bool_value :: "bool option"
  opt_float_value :: "float option"

definition has_type :: "NamedParam \<Rightarrow> bool" where
  "has_type e = (param_type e \<noteq> None)"

definition has_double_value :: "NamedParam \<Rightarrow> bool" where
  "has_double_value e = (opt_double_value e \<noteq> None)"

definition has_int_value :: "NamedParam \<Rightarrow> bool" where
  "has_int_value e = (opt_int_value e \<noteq> None)"

definition has_string_value :: "NamedParam \<Rightarrow> bool" where
  "has_string_value e = (opt_string_value e \<noteq> None)"

definition has_vector3d :: "NamedParam \<Rightarrow> bool" where
  "has_vector3d e = (opt_vector3d e \<noteq> None)"

definition has_bool_value :: "NamedParam \<Rightarrow> bool" where
  "has_bool_value e = (opt_bool_value e \<noteq> None)"

definition has_float_value :: "NamedParam \<Rightarrow> bool" where
  "has_float_value e = (opt_float_value e \<noteq> None)"

definition double_value :: "NamedParam \<Rightarrow> double" where
  "double_value e = (case opt_double_value e of Some d \<Rightarrow> d | None \<Rightarrow> 0)"

definition int_value :: "NamedParam \<Rightarrow> int32" where
  "int_value e = (case opt_int_value e of Some i \<Rightarrow> i | None \<Rightarrow> 0)"

definition string_value :: "NamedParam \<Rightarrow> string" where
  "string_value e = (case opt_string_value e of Some s \<Rightarrow> s | None \<Rightarrow> [])"

definition vector3d :: "NamedParam \<Rightarrow> msgs_Vector3d" where
  "vector3d e = (case opt_vector3d e of Some v \<Rightarrow> v | None \<Rightarrow> msgs_Vector3d 0 0 0)"

definition bool_value :: "NamedParam \<Rightarrow> bool" where
  "bool_value e = (case opt_bool_value e of Some b \<Rightarrow> b | None \<Rightarrow> False)"

definition float_value :: "NamedParam \<Rightarrow> float" where
  "float_value e = (case opt_float_value e of Some f \<Rightarrow> f | None \<Rightarrow> 0)"

record Physics =
  parameters :: "NamedParam list"

definition parameters_size :: "Physics \<Rightarrow> nat" where
  "parameters_size msg = length (parameters msg)"

subsection \<open>The engine and what it calls outside this file\<close>

text \<open>The messages written to \<open>gzwarn\<close> and \<open>gzerr\<close>.\<close>

datatype gz_text =
    CannotSetType
  | SetParamFailed string string
  | CaughtBadAnyCast
  | GetParamFailed string string
  | EmptyParameterMsg

datatype gz_msg = gzwarn gz_text | gzerr gz_text

text \<open>
  The members of \<open>PhysicsEngine\<close> that the parameter interface reads or writes;
  \<open>'s\<close> is the description tree \<open>sdf::ElementPtr\<close>.
\<close>

record 's PhysicsEngine =
  sdf :: 's
  targetRealTimeFactor :: double
  realTimeUpdateRate :: double
  maxStepSize :: double

text \<open>
  What the engine calls and this file does not define: the schema element accessors
  and the pure virtual members \<open>GetType\<close> and \<open>SetGravity\<close>, which each engine
  implements. A call \<open>sdf->GetElement(n)->Set(v)\<close> is two calls, one after the
  other: \<open>GetElement n\<close> is the description tree after the lookup of the child
  \<open>n\<close> (the same tree where the lookup only finds the child, another one where it
  adds the child), and \<open>Element_Set_double n v\<close>, \<open>Element_Set_Vector3 n v\<close> are
  the tree after \<open>Set(v)\<close> on that child. \<open>Element_Get_Vector3\<close> is
  \<open>sdf->Get<math::Vector3>(n)\<close>.
\<close>

record 's external =
  GetElement :: "string \<Rightarrow> 's \<Rightarrow> 's"
  Element_Set_double :: "string \<Rightarrow> double \<Rightarrow> 's \<Rightarrow> 's"
  Element_Set_Vector3 :: "string \<Rightarrow> Vector3 \<Rightarrow> 's \<Rightarrow> 's"
  Element_Get_Vector3 :: "'s \<Rightarrow> string \<Rightarrow> Vector3"
  GetType :: "'s PhysicsEngine \<Rightarrow> string"
  SetGravity :: "Vector3 \<Rightarrow> 's PhysicsEngine \<Rightarrow> 's PhysicsEngine"

definition GetGravity :: "'s external \<Rightarrow> 's PhysicsEngine \<Rightarrow> Vector3" where
  "GetGravity X this = Element_Get_Vector3 X (sdf this) ''gravity''"

definition GetTargetRealTimeFactor :: "'s PhysicsEngine \<Rightarrow> double" where
  "GetTargetRealTimeFactor this = targetRealTimeFactor this"

definition GetRealTimeUpdateRate :: "'s PhysicsEngine \<Rightarrow> double" where
  "GetRealTimeUpdateRate this = realTimeUpdateRate this"

definition GetMaxStepSize :: "'s PhysicsEngine \<Rightarrow> double" where
  "GetMaxStepSize this = maxStepSize this"

definition SetTargetRealTimeFactor ::
  "'s external \<Rightarrow> double \<Rightarrow> 's PhysicsEngine \<Rightarrow> 's PhysicsEngine" where
  "SetTargetRealTimeFactor X factor this =
     this\<lparr>sdf := Element_Set_double X ''real_time_factor'' factor
                    (GetElement X ''real_time_factor'' (sdf this)),
          targetRealTimeFactor := factor\<rparr>"

definition SetRealTimeUpdateRate ::
  "'s external \<Rightarrow> double \<Rightarrow> 's PhysicsEngine \<Rightarrow> 's PhysicsEngine" where
  "SetRealTimeUpdateRate X rate this =
     this\<lparr>sdf := Element_Set_double X ''real_time_update_rate'' rate
                    (GetElement X ''real_time_update_rate'' (sdf this)),
          realTimeUpdateRate := rate\<rparr>"

definition SetMaxStepSize ::
  "'s external \<Rightarrow> double \<Rightarrow> 's PhysicsEngine \<Rightarrow> 's PhysicsEngine" where
  "SetMaxStepSize X stepSize this =
     this\<lparr>sdf := Element_Set_double X ''max_step_size'' stepSize
                    (GetElement X ''max_step_size'' (sdf this)),
          maxStepSize := stepSize\<rparr>"

subsection \<open>SetParam and GetParam\<close>

text \<open>
  \<open>SetParam\<close> gives the returned flag, the engine after the call and the messages
  logged. A failing \<open>any_cast\<close> throws while the argument of the setter is being
  evaluated, so before the setter runs; the handler logs and returns false. In the
  \<open>magnetic_field\<close> branch the setter is called on
  \<open>this->sdf->GetElement("magnetic_field")\<close>: this object expression is evaluated
  before the argument (C++17 sequences it so; earlier standards leave the order to
  the compiler), so the lookup has run when the cast throws.
\<close>

definition SetParam ::
  "'s external \<Rightarrow> string \<Rightarrow> any \<Rightarrow> 's PhysicsEngine \<Rightarrow> bool \<times> 's PhysicsEngine \<times> gz_msg list" where
  "SetParam X k v this =
     (if k = ''type'' then (False, this, [gzwarn CannotSetType])
      else if k = ''max_step_size'' then
        (case any_cast_double v of
           None \<Rightarrow> (False, this, [gzerr CaughtBadAnyCast])
         | Some d \<Rightarrow> (True, SetMaxStepSize X d this, []))
      else if k = ''real_time_update_rate'' then
        (case any_cast_double v of
           None \<Rightarrow> (False, this, [gzerr CaughtBadAnyCast])
         | Some d \<Rightarrow> (True, SetRealTimeUpdateRate X d this, []))
      else if k = ''real_time_factor'' then
        (case any_cast_double v of
           None \<Rightarrow> (False, this, [gzerr CaughtBadAnyCast])
         | Some d \<Rightarrow> (True, SetTargetRealTimeFactor X d this, []))
      else if k = ''gravity'' then
        (case any_cast_Vector3 v of
           None \<Rightarrow> (False, this, [gzerr CaughtBadAnyCast])
         | Some g \<Rightarrow> (True, SetGravity X g this, []))
      else if k = ''magnetic_field'' then
        (let looked_up = this\<lparr>sdf := GetElement X ''magnetic_field'' (sdf this)\<rparr>
         in case any_cast_Vector3 v of
              None \<Rightarrow> (False, looked_up, [gzerr CaughtBadAnyCast])
            | Some m \<Rightarrow>
                (True,
                 looked_up\<lparr>sdf := Element_Set_Vector3 X ''magnetic_field'' m (sdf looked_up)\<rparr>,
                 []))
      else (False, this, [gzwarn (SetParamFailed k (GetType X this))]))"

text \<open>
  \<open>GetParam(key, value)\<close> takes the caller's \<open>value\<close> as it is before the call
  and gives the returned flag, \<open>value\<close> after the call and the messages logged.
\<close>

definition GetParam ::
  "'s external \<Rightarrow> string \<Rightarrow> any \<Rightarrow> 's PhysicsEngine \<Rightarrow> bool \<times> any \<times> gz_msg list" where
  "GetParam X k out this =
     (if k = ''type'' then (True, any_string (GetType X this), [])
      else if k = ''max_step_size'' then (True, any_double (GetMaxStepSize this), [])
      else if k = ''real_time_update_rate'' then
        (True, any_double (GetRealTimeUpdateRate this), [])
      else if k = ''real_time_factor'' then
        (True, any_double (GetTargetRealTimeFactor this), [])
      else if k = ''gravity'' then (True, any_Vector3 (GetGravity X this), [])
      else if k = ''magnetic_field'' then
        (True, any_Vector3 (Element_Get_Vector3 X (sdf this) ''magnetic_field''), [])
      else (False, out, [gzwarn (GetParamFailed k (GetType X this))]))"

subsection \<open>OnPhysicsMsg\<close>

text \<open>
  What the body of the loop assigns to \<open>value\<close> for one entry, \<open>None\<close> on the two
  paths that log \<open>Empty parameter msg\<close> and \<open>continue\<close>.
\<close>

definition entry_value :: "NamedParam \<Rightarrow> any option" where
  "entry_value e =
     (if has_type e then
        (case param_type e of
           Some DOUBLE_TYPE \<Rightarrow> Some (any_double (double_value e))
         | Some INT_TYPE \<Rightarrow> Some (any_int (int_value e))
         | Some STRING_TYPE \<Rightarrow> Some (any_string (string_value e))
         | Some VECTOR3D_TYPE \<Rightarrow> Some (any_msgs_Vector3d (vector3d e))
         | Some BOOL_TYPE \<Rightarrow> Some (any_bool (bool_value e))
         | Some FLOAT_TYPE \<Rightarrow> Some (any_float (float_value e))
         | _ \<Rightarrow> None)
      else if has_double_value e then Some (any_double (double_value e))
      else if has_int_value e then Some (any_int (int_value e))
      else if has_string_value e then Some (any_string (string_value e))
      else if has_vector3d e then Some (any_msgs_Vector3d (vector3d e))
      else if has_bool_value e then Some (any_bool (bool_value e))
      else if has_float_value e then Some (any_float (float_value e))
      else None)"

text \<open>
  The loop over the indices of the message, with the variable \<open>value\<close> that lives
  across the iterations, the engine and the log so far.
\<close>

function OnPhysicsMsg_loop ::
  "'s external \<Rightarrow> Physics \<Rightarrow> nat \<Rightarrow> any \<Rightarrow> 's PhysicsEngine \<Rightarrow> gz_msg list
     \<Rightarrow> 's PhysicsEngine \<times> gz_msg list" where
  "OnPhysicsMsg_loop X msg i value this logged =
     (if i < parameters_size msg then
        (case entry_value (parameters msg ! i) of
           None \<Rightarrow> OnPhysicsMsg_loop X msg (i + 1) value this (logged @ [gzwarn EmptyParameterMsg])
         | Some v \<Rightarrow>
             (case SetParam X (name (parameters msg ! i)) v this of
                (ok, this', l) \<Rightarrow> OnPhysicsMsg_loop X msg (i + 1) v this' (logged @ l)))
      else (this, logged))"
  by pat_completeness auto
termination
  by (relation "measure (\<lambda>(X, msg, i, value, this, logged). parameters_size msg - i)") auto

declare OnPhysicsMsg_loop.simps [simp del]

definition OnPhysicsMsg ::
  "'s external \<Rightarrow> Physics \<Rightarrow> 's PhysicsEngine \<Rightarrow> 's PhysicsEngine \<times> gz_msg list" where
  "OnPhysicsMsg X msg this = OnPhysicsMsg_loop X msg 0 any_empty this []"

text \<open>
  The decoding as the specification words it: the sequence of decoded (key, value)
  pairs, one for each entry that yields a value, in message order; and feeding each
  pair to \<open>SetParam\<close>, one after the other.
\<close>

definition DecodeUpdateMessage :: "Physics \<Rightarrow> (string \<times> any) list" where
  "DecodeUpdateMessage msg =
     List.map_filter (\<lambda>e. map_option (\<lambda>v. (name e, v)) (entry_value e)) (parameters msg)"

definition dispatch_all ::
  "'s external \<Rightarrow> (string \<times> any) list \<Rightarrow> 's PhysicsEngine \<Rightarrow> 's PhysicsEngine" where
  "dispatch_all X kvs this = foldl (\<lambda>s (k, v). fst (snd (SetParam X k v s))) this kvs"

text \<open>
  An instance of the outside world for the concrete evaluations below: the
  description tree as a map from element names to values, with a \<open>GetElement\<close>
  that finds the child or, where the tree has none of that name, adds one that
  holds no value yet; an engine of type \<open>ode\<close> whose \<open>SetGravity\<close> stores the
  vector in the tree. \<open>engine0\<close> has a \<open>gravity\<close> child and no
  \<open>magnetic_field\<close> child.
\<close>

definition map_external :: "(string \<rightharpoonup> any) external" where
  "map_external =
     \<lparr>GetElement = (\<lambda>n m. case m n of None \<Rightarrow> m(n \<mapsto> any_empty) | Some x \<Rightarrow> m),
      Element_Set_double = (\<lambda>n d m. m(n \<mapsto> any_double d)),
      Element_Set_Vector3 = (\<lambda>n v m. m(n \<mapsto> any_Vector3 v)),
      Element_Get_Vector3 =
        (\<lambda>m n. case m n of Some (any_Vector3 v) \<Rightarrow> v | _ \<Rightarrow> Vector3 0 0 0),
      GetType = (\<lambda>this. ''ode''),
      SetGravity = (\<lambda>g this. this\<lparr>sdf := (sdf this)(''gravity'' \<mapsto> any_Vector3 g)\<rparr>)\<rparr>"

definition engine0 :: "(string \<rightharpoonup> any) PhysicsEngine" where
  "engine0 =
     \<lparr>sdf = [''gravity'' \<mapsto> any_Vector3 (Vector3 0 0 (-98 / 10))],
      targetRealTimeFactor = 1, realTimeUpdateRate = 1000, maxStepSize = 1 / 1000\<rparr>"

text \<open>
  The loop of \<open>OnPhysicsMsg\<close> over the entries that are left, by recursion on the
  list: what the index loop computes from index \<open>i\<close> on (lemma \<open>loop_process\<close>).
\<close>

fun process_entries ::
  "'s external \<Rightarrow> NamedParam list \<Rightarrow> 's PhysicsEngine \<Rightarrow> gz_msg list
     \<Rightarrow> 's PhysicsEngine \<times> gz_msg list" where
  "process_entries X [] this logged = (this, logged)"
| "process_entries X (e # es) this logged =
     (case entry_value e of
        None \<Rightarrow> process_entries X es this (logged @ [gzwarn EmptyParameterMsg])
      | Some v \<Rightarrow>
          (case SetParam X (name e) v this of
             (ok, this', l) \<Rightarrow> process_entries X es this' (logged @ l)))"

text \<open>
  Concrete handles and entries for the evaluations below: a handle named \<open>p\<close> with
  a given type name and payload, and a message entry with no field populated.
\<close>

definition handle :: "string \<Rightarrow> tvalue \<Rightarrow> ParamT" where
  "handle tn v =
     \<lparr>key = ''p'', required = False, set_flag = True, typeName = tn,
      description = [], val = v\<rparr>"

definition empty_entry :: "string \<Rightarrow> NamedParam" where
  "empty_entry n =
     \<lparr>name = n, param_type = None, opt_double_value = None, opt_int_value = None,
      opt_string_value = None, opt_vector3d = None, opt_bool_value = None,
      opt_float_value = None\<rparr>"

section \<open>Properties of the parameter handle\<close>

lemmas Is_defs =
  GetTypeName_def IsBool_def IsInt_def IsUInt_def IsFloat_def IsDouble_def IsChar_def
  IsStr_def IsVector3_def IsVector2i_def IsVector2d_def IsQuaternion_def IsPose_def
  IsColor_def IsTime_def

lemmas lexical_cast_defs =
  lexical_cast_decimal_double_def lexical_cast_decimal_int_def decimal_value_def digit_of_def c_str_def

subsection \<open>The scalar Gets check the tag\<close>

text \<open>
  Claim C5. Each scalar \<open>Get\<close> (bool, int, unsigned int, float, double, char,
  string, quaternion, pose, color, time) on a handle whose type tag is not the
  requested kind returns normally with the flag false and the caller's output
  variable as it was; on a handle whose tag is the requested kind it returns true
  with the stored payload, whatever the handle's string form is (the string form and
  its parser are no argument of these functions).
\<close>

theorem scalar_Get_checks_tag:
  fixes this :: ParamT
  shows
    "(IsBool this \<longrightarrow> val this = BoolV b \<longrightarrow> Get_bool this ob = Inr (True, b, []))
   \<and> (\<not> IsBool this \<longrightarrow> Get_bool this ob = Inr (False, ob, [NotA (key this) ''a bool'']))
   \<and> (IsInt this \<longrightarrow> val this = IntV i \<longrightarrow> Get_int this oi = Inr (True, i, []))
   \<and> (\<not> IsInt this \<longrightarrow> Get_int this oi = Inr (False, oi, [NotA (key this) ''an int'']))
   \<and> (IsUInt this \<longrightarrow> val this = UIntV u \<longrightarrow> Get_uint this ou = Inr (True, u, []))
   \<and> (\<not> IsUInt this \<longrightarrow>
        Get_uint this ou = Inr (False, ou, [NotA (key this) ''an unsigned int'']))
   \<and> (IsFloat this \<longrightarrow> val this = FloatV f \<longrightarrow> Get_float this of' = Inr (True, f, []))
   \<and> (\<not> IsFloat this \<longrightarrow> Get_float this of' = Inr (False, of', [NotA (key this) ''a float'']))
   \<and> (IsDouble this \<longrightarrow> val this = DoubleV d \<longrightarrow> Get_double this od = Inr (True, d, []))
   \<and> (\<not> IsDouble this \<longrightarrow>
        Get_double this od = Inr (False, od, [NotADouble (key this) (typeName this)]))
   \<and> (IsChar this \<longrightarrow> val this = CharV c \<longrightarrow> Get_char this oc = Inr (True, c, []))
   \<and> (\<not> IsChar this \<longrightarrow>
        Get_char this oc = Inr (False, oc, [NotA (key this) ''an unsigned int'']))
   \<and> (IsStr this \<longrightarrow> val this = StrV s \<longrightarrow> Get_string this os = Inr (True, s, []))
   \<and> (\<not> IsStr this \<longrightarrow> Get_string this os = Inr (False, os, [NotA (key this) ''a string'']))
   \<and> (IsQuaternion this \<longrightarrow> val this = QuaternionV q \<longrightarrow>
        Get_Quaternion this oq = Inr (True, q, []))
   \<and> (\<not> IsQuaternion this \<longrightarrow>
        Get_Quaternion this oq = Inr (False, oq, [NotA (key this) ''a quaternion'']))
   \<and> (IsPose this \<longrightarrow> val this = PoseV po \<longrightarrow> Get_Pose this opo = Inr (True, po, []))
   \<and> (\<not> IsPose this \<longrightarrow> Get_Pose this opo = Inr (False, opo, [NotA (key this) ''a pose'']))
   \<and> (IsColor this \<longrightarrow> val this = ColorV co \<longrightarrow> Get_Color this oco = Inr (True, co, []))
   \<and> (\<not> IsColor this \<longrightarrow>
        Get_Color this oco = Inr (False, oco, [NotA (key this) ''a color'']))
   \<and> (IsTime this \<longrightarrow> val this = TimeV t \<longrightarrow> Get_Time this ot = Inr (True, t, []))
   \<and> (\<not> IsTime this \<longrightarrow> Get_Time this ot = Inr (False, ot, [NotA (key this) ''a time'']))"
  by (simp add: Get_bool_def GetValue_bool_def Get_int_def GetValue_int_def
      Get_uint_def GetValue_uint_def Get_float_def GetValue_float_def
      Get_double_def GetValue_double_def Get_char_def GetValue_char_def
      Get_string_def GetValue_string_def Get_Quaternion_def GetValue_Quaternion_def
      Get_Pose_def GetValue_Pose_def Get_Color_def GetValue_Color_def
      Get_Time_def GetValue_Time_def)

text \<open>
  The theorem at concrete handles: a handle of every scalar kind is read back through
  its own \<open>Get\<close>, and a handle constructed as \<open>double\<close> is refused by the ten
  other scalar Gets (a handle constructed as \<open>int\<close> by \<open>Get_double\<close>), the output
  variable keeping the value it had.
\<close>

theorem scalar_Get_checks_tag_witness:
  "Get_bool (handle ''bool'' (BoolV True)) False = Inr (True, True, [])
   \<and> Get_int (handle ''int'' (IntV 7)) 0 = Inr (True, 7, [])
   \<and> Get_uint (handle ''unsigned int'' (UIntV 8)) 0 = Inr (True, 8, [])
   \<and> Get_float (handle ''float'' (FloatV 3)) 0 = Inr (True, 3, [])
   \<and> Get_double (handle ''double'' (DoubleV 2)) 0 = Inr (True, 2, [])
   \<and> Get_char (handle ''char'' (CharV CHR ''c'')) CHR ''x'' = Inr (True, CHR ''c'', [])
   \<and> Get_string (handle ''string'' (StrV ''abc'')) [] = Inr (True, ''abc'', [])
   \<and> Get_Quaternion (handle ''quaternion'' (QuaternionV (Quaternion 0 0 0 1)))
        (Quaternion 1 0 0 0) = Inr (True, Quaternion 0 0 0 1, [])
   \<and> Get_Pose (handle ''pose'' (PoseV (Pose (Vector3 1 2 3) (Quaternion 0 0 0 1))))
        (Pose (Vector3 0 0 0) (Quaternion 0 0 0 1))
        = Inr (True, Pose (Vector3 1 2 3) (Quaternion 0 0 0 1), [])
   \<and> Get_Color (handle ''color'' (ColorV (Color 1 0 0 1))) (Color 0 0 0 0)
        = Inr (True, Color 1 0 0 1, [])
   \<and> Get_Time (handle ''time'' (TimeV (Time 5 0))) (Time 0 0) = Inr (True, Time 5 0, [])
   \<and> Get_bool (handle ''double'' (DoubleV 2)) True = Inr (False, True, [NotA ''p'' ''a bool''])
   \<and> Get_int (handle ''double'' (DoubleV 2)) 9 = Inr (False, 9, [NotA ''p'' ''an int''])
   \<and> Get_uint (handle ''double'' (DoubleV 2)) 9
        = Inr (False, 9, [NotA ''p'' ''an unsigned int''])
   \<and> Get_float (handle ''double'' (DoubleV 2)) 9 = Inr (False, 9, [NotA ''p'' ''a float''])
   \<and> Get_double (handle ''int'' (IntV 7)) 9 = Inr (False, 9, [NotADouble ''p'' ''int''])
   \<and> Get_char (handle ''double'' (DoubleV 2)) CHR ''x''
        = Inr (False, CHR ''x'', [NotA ''p'' ''an unsigned int''])
   \<and> Get_string (handle ''double'' (DoubleV 2)) ''old''
        = Inr (False, ''old'', [NotA ''p'' ''a string''])
   \<and> Get_Quaternion (handle ''double'' (DoubleV 2)) (Quaternion 1 0 0 0)
        = Inr (False, Quaternion 1 0 0 0, [NotA ''p'' ''a quaternion''])
   \<and> Get_Pose (handle ''double'' (DoubleV 2)) (Pose (Vector3 0 0 0) (Quaternion 0 0 0 1))
        = Inr (False, Pose (Vector3 0 0 0) (Quaternion 0 0 0 1), [NotA ''p'' ''a pose''])
   \<and> Get_Color (handle ''double'' (DoubleV 2)) (Color 0 0 0 0)
        = Inr (False, Color 0 0 0 0, [NotA ''p'' ''a color''])
   \<and> Get_Time (handle ''double'' (DoubleV 2)) (Time 0 0)
        = Inr (False, Time 0 0, [NotA ''p'' ''a time''])"
proof -
  note T = scalar_Get_checks_tag
  have m: "IsBool (handle ''bool'' (BoolV True))" "IsInt (handle ''int'' (IntV 7))"
    "IsUInt (handle ''unsigned int'' (UIntV 8))" "IsFloat (handle ''float'' (FloatV 3))"
    "IsDouble (handle ''double'' (DoubleV 2))" "IsChar (handle ''char'' (CharV CHR ''c''))"
    "IsStr (handle ''string'' (StrV ''abc''))"
    "IsQuaternion (handle ''quaternion'' (QuaternionV (Quaternion 0 0 0 1)))"
    "IsPose (handle ''pose'' (PoseV (Pose (Vector3 1 2 3) (Quaternion 0 0 0 1))))"
    "IsColor (handle ''color'' (ColorV (Color 1 0 0 1)))"
    "IsTime (handle ''time'' (TimeV (Time 5 0)))"
    by (simp_all add: handle_def Is_defs)
  have n: "\<not> IsBool (handle ''double'' (DoubleV 2))" "\<not> IsInt (handle ''double'' (DoubleV 2))"
    "\<not> IsUInt (handle ''double'' (DoubleV 2))" "\<not> IsFloat (handle ''double'' (DoubleV 2))"
    "\<not> IsDouble (handle ''int'' (IntV 7))" "\<not> IsChar (handle ''double'' (DoubleV 2))"
    "\<not> IsStr (handle ''double'' (DoubleV 2))" "\<not> IsQuaternion (handle ''double'' (DoubleV 2))"
    "\<not> IsPose (handle ''double'' (DoubleV 2))" "\<not> IsColor (handle ''double'' (DoubleV 2))"
    "\<not> IsTime (handle ''double'' (DoubleV 2))"
    by (simp_all add: handle_def Is_defs)
  have v: "val (handle tn x) = x" "key (handle tn x) = ''p''" "typeName (handle tn x) = tn"
    for tn x
    by (simp_all add: handle_def)
  show ?thesis
    using m n
      T [where this = "handle ''bool'' (BoolV True)" and b = True]
      T [where this = "handle ''int'' (IntV 7)" and i = 7]
      T [where this = "handle ''unsigned int'' (UIntV 8)" and u = 8]
      T [where this = "handle ''float'' (FloatV 3)" and f = 3]
      T [where this = "handle ''double'' (DoubleV 2)" and d = 2]
      T [where this = "handle ''char'' (CharV CHR ''c'')" and c = "CHR ''c''"]
      T [where this = "handle ''string'' (StrV ''abc'')" and s = "''abc''"]
      T [where this = "handle ''quaternion'' (QuaternionV (Quaternion 0 0 0 1))"
           and q = "Quaternion 0 0 0 1"]
      T [where this = "handle ''pose'' (PoseV (Pose (Vector3 1 2 3) (Quaternion 0 0 0 1)))"
           and po = "Pose (Vector3 1 2 3) (Quaternion 0 0 0 1)"]
      T [where this = "handle ''color'' (ColorV (Color 1 0 0 1))" and co = "Color 1 0 0 1"]
      T [where this = "handle ''time'' (TimeV (Time 5 0))" and t = "Time 5 0"]
    by (simp add: v)
qed

subsection \<open>The vector Gets fall back to the string form\<close>

lemma fallback_Vector3:
  assumes "\<not> IsVector3 this"
    and "boost_split (is_any_of '' '') (GetAsString to_string this) = [p0, p1, p2]"
    and "p0 \<noteq> []" "p1 \<noteq> []" "p2 \<noteq> []"
    and "lcd (c_str p0) = Some e0" "lcd (c_str p1) = Some e1" "lcd (c_str p2) = Some e2"
  shows "Get_Vector3 to_string lcd this out = Inr (True, Vector3 e0 e1 e2, [])"
  using assms by (simp add: Get_Vector3_def element_at_def)

lemma fallback_Vector2i:
  assumes "\<not> IsVector2i this"
    and "boost_split (is_any_of '' '') (GetAsString to_string this) = [p0, p1]"
    and "p0 \<noteq> []" "p1 \<noteq> []"
    and "lci (c_str p0) = Some e0" "lci (c_str p1) = Some e1"
  shows "Get_Vector2i to_string lci this out = Inr (True, Vector2i e0 e1, [])"
  using assms by (simp add: Get_Vector2i_def element_at_def)

lemma fallback_Vector2d:
  assumes "\<not> IsVector2d this"
    and "boost_split (is_any_of '' '') (GetAsString to_string this) = [p0, p1]"
    and "p0 \<noteq> []" "p1 \<noteq> []"
    and "lcd (c_str p0) = Some e0" "lcd (c_str p1) = Some e1"
  shows "Get_Vector2d to_string lcd this out = Inr (True, Vector2d e0 e1, [])"
  using assms by (simp add: Get_Vector2d_def element_at_def)

lemma string_4_5_6:
  assumes "typeName this = ''string''" and "val this = StrV ''4 5 6''"
    and "lcd ''4'' = Some 4" "lcd ''5'' = Some 5" "lcd ''6'' = Some 6"
  shows "Get_Vector3 to_string lcd this out = Inr (True, Vector3 4 5 6, [])"
proof -
  have tag: "\<not> IsVector3 this"
    using assms(1) by (simp add: Is_defs)
  have pieces: "boost_split (is_any_of '' '') (GetAsString to_string this) = [''4'', ''5'', ''6'']"
    using assms(2) by (simp add: GetAsString_def is_any_of_def)
  have c: "c_str ''4'' = ''4''" "c_str ''5'' = ''5''" "c_str ''6'' = ''6''"
    by (simp_all add: c_str_def)
  show ?thesis
    by (rule fallback_Vector3 [OF tag pieces]) (simp_all add: c assms(3-5))
qed

text \<open>
  Claim C2. On a handle whose type tag is not \<open>vector3\<close>, \<open>Get(Vector3&)\<close> does not
  return false at the tag check: it splits the handle's string form at the spaces
  and, where that gives three non-empty pieces that \<open>lexical_cast<double>\<close> reads,
  returns true with the three numbers. \<open>Get(Vector2i&)\<close> and \<open>Get(Vector2d&)\<close> do
  the same with two pieces. So a handle constructed as \<open>string\<close> with the value
  \<open>4 5 6\<close> gives (4, 5, 6) under \<open>Get(Vector3&)\<close>, while \<open>Get(int&)\<close> on it returns
  false and leaves its output variable alone. (\<open>lcd\<close> and \<open>lci\<close> are
  \<open>boost::lexical_cast\<close> to \<open>double\<close> and to \<open>int\<close>.)
\<close>

theorem vector_Get_fallback:
  fixes this :: ParamT
  shows
    "(\<not> IsVector3 this \<longrightarrow>
        boost_split (is_any_of '' '') (GetAsString to_string this) = [p0, p1, p2] \<longrightarrow>
        p0 \<noteq> [] \<longrightarrow> p1 \<noteq> [] \<longrightarrow> p2 \<noteq> [] \<longrightarrow>
        lcd (c_str p0) = Some e0 \<longrightarrow> lcd (c_str p1) = Some e1 \<longrightarrow> lcd (c_str p2) = Some e2 \<longrightarrow>
        Get_Vector3 to_string lcd this out3 = Inr (True, Vector3 e0 e1 e2, []))
   \<and> (\<not> IsVector2i this \<longrightarrow>
        boost_split (is_any_of '' '') (GetAsString to_string this) = [r0, r1] \<longrightarrow>
        r0 \<noteq> [] \<longrightarrow> r1 \<noteq> [] \<longrightarrow>
        lci (c_str r0) = Some n0 \<longrightarrow> lci (c_str r1) = Some n1 \<longrightarrow>
        Get_Vector2i to_string lci this out2i = Inr (True, Vector2i n0 n1, []))
   \<and> (\<not> IsVector2d this \<longrightarrow>
        boost_split (is_any_of '' '') (GetAsString to_string this) = [r0, r1] \<longrightarrow>
        r0 \<noteq> [] \<longrightarrow> r1 \<noteq> [] \<longrightarrow>
        lcd (c_str r0) = Some d0 \<longrightarrow> lcd (c_str r1) = Some d1 \<longrightarrow>
        Get_Vector2d to_string lcd this out2d = Inr (True, Vector2d d0 d1, []))
   \<and> (typeName this = ''string'' \<longrightarrow> val this = StrV ''4 5 6'' \<longrightarrow>
        lcd ''4'' = Some 4 \<longrightarrow> lcd ''5'' = Some 5 \<longrightarrow> lcd ''6'' = Some 6 \<longrightarrow>
        Get_Vector3 to_string lcd this out3 = Inr (True, Vector3 4 5 6, [])
        \<and> Get_int this oi = Inr (False, oi, [NotA (key this) ''an int'']))"
proof (intro conjI impI)
  show "Get_int this oi = Inr (False, oi, [NotA (key this) ''an int''])"
    if "typeName this = ''string''"
    using that by (simp add: Get_int_def Is_defs)
qed (simp_all add: fallback_Vector3 fallback_Vector2i fallback_Vector2d string_4_5_6)

text \<open>
  The theorem at a handle constructed as \<open>string\<close>, with the decimal instance of
  \<open>lexical_cast\<close>: \<open>4 5 6\<close> read as a Vector3 and refused as an int, \<open>7 -8\<close> read
  as a Vector2i, \<open>4 5\<close> as a Vector2d.
\<close>

theorem vector_Get_fallback_witness:
  "Get_Vector3 (\<lambda>v. []) lexical_cast_decimal_double (handle ''string'' (StrV ''4 5 6''))
     (Vector3 0 0 0) = Inr (True, Vector3 4 5 6, [])
   \<and> Get_int (handle ''string'' (StrV ''4 5 6'')) 9 = Inr (False, 9, [NotA ''p'' ''an int''])
   \<and> Get_Vector2i (\<lambda>v. []) lexical_cast_decimal_int (handle ''string'' (StrV ''7 -8''))
        (Vector2i 0 0) = Inr (True, Vector2i 7 (- 8), [])
   \<and> Get_Vector2d (\<lambda>v. []) lexical_cast_decimal_double (handle ''string'' (StrV ''4 5''))
        (Vector2d 0 0) = Inr (True, Vector2d 4 5, [])"
proof -
  have tag: "\<not> IsVector3 (handle ''string'' x)" "\<not> IsVector2i (handle ''string'' x)"
    "\<not> IsVector2d (handle ''string'' x)" "typeName (handle ''string'' x) = ''string''"
    "val (handle ''string'' x) = x" "key (handle ''string'' x) = ''p''" for x
    by (simp_all add: handle_def Is_defs)
  have str: "GetAsString (\<lambda>v. []) (handle ''string'' (StrV x)) = x" for x
    by (simp add: GetAsString_def handle_def)
  note T = vector_Get_fallback [where to_string = "\<lambda>v. []" and lcd = lexical_cast_decimal_double
      and lci = lexical_cast_decimal_int]
  show ?thesis
    using
      T [where this = "handle ''string'' (StrV ''4 5 6'')" and ?p0.0 = "''4''" and ?p1.0 = "''5''"
           and ?p2.0 = "''6''" and ?e0.0 = 4 and ?e1.0 = 5 and ?e2.0 = 6
           and ?out3.0 = "Vector3 0 0 0" and oi = 9]
      T [where this = "handle ''string'' (StrV ''7 -8'')" and ?r0.0 = "''7''" and ?r1.0 = "''-8''"
           and ?n0.0 = 7 and ?n1.0 = "- 8" and out2i = "Vector2i 0 0"]
      T [where this = "handle ''string'' (StrV ''4 5'')" and ?r0.0 = "''4''" and ?r1.0 = "''5''"
           and ?d0.0 = 4 and ?d1.0 = 5 and out2d = "Vector2d 0 0"]
    by (simp add: tag str is_any_of_def lexical_cast_defs)
qed

subsection \<open>The piece count is taken before the empty pieces are dropped\<close>

text \<open>
  Claim C1, at the input \<open>1  2   3\<close> (two and three spaces). The claim has the empty
  tokens dropped before the count, so that this string parses to (1, 2, 3). The code
  counts the pieces as \<open>boost::split\<close> delivers them: six here, three of them empty.
  \<open>Get(Vector3&)\<close> returns false with the piece-count message and leaves the
  output alone, whatever \<open>lexical_cast\<close> does; likewise \<open>1  2\<close> for the two
  two-component Gets.
\<close>

theorem extra_spaces_fail_the_piece_count:
  "boost_split (is_any_of '' '') ''1  2   3'' = [''1'', [], ''2'', [], [], ''3'']
   \<and> Get_Vector3 to_string lcd (handle ''string'' (StrV ''1  2   3'')) out3
       = Inr (False, out3, [WrongPieceCount 3 ''Vector3''])
   \<and> Get_Vector2i to_string lci (handle ''string'' (StrV ''1  2'')) out2i
       = Inr (False, out2i, [WrongPieceCount 2 ''Vector2i''])
   \<and> Get_Vector2d to_string lcd (handle ''string'' (StrV ''1  2'')) out2d
       = Inr (False, out2d, [WrongPieceCount 2 ''Vector2d''])"
  by (simp add: Get_Vector3_def Get_Vector2i_def Get_Vector2d_def handle_def Is_defs
      GetAsString_def is_any_of_def)

text \<open>
  Claim C10, at the input \<open>1  2\<close> (two spaces) for \<open>Get(Vector3&)\<close>. The split
  gives exactly three pieces, the middle one empty; the loop skips it, so where
  \<open>lexical_cast\<close> reads \<open>1\<close> and \<open>2\<close> the list \<open>elements\<close> holds two numbers and
  the read of \<open>elements[2]\<close> is past the end. The same happens to \<open>Get(Vector2i&)\<close>
  on \<open>7\<close> followed by a space, to \<open>Get(Vector2d&)\<close> on a space followed by \<open>7\<close>,
  and, for any \<open>lexical_cast\<close>, to \<open>Get(Vector3&)\<close> on a string of two spaces,
  where even \<open>elements[0]\<close> is missing.
\<close>

theorem empty_piece_reads_past_the_end:
  "(lcd ''1'' = Some a \<longrightarrow> lcd ''2'' = Some b \<longrightarrow>
      Get_Vector3 to_string lcd (handle ''string'' (StrV ''1  2'')) outV = Inl OutOfRange)
   \<and> (lci ''7'' = Some n \<longrightarrow>
      Get_Vector2i to_string lci (handle ''string'' (StrV ''7 '')) outI = Inl OutOfRange)
   \<and> (lcd ''7'' = Some c \<longrightarrow>
      Get_Vector2d to_string lcd (handle ''string'' (StrV '' 7'')) outD = Inl OutOfRange)
   \<and> Get_Vector3 to_string lcd (handle ''string'' (StrV ''  '')) outV = Inl OutOfRange"
  by (simp add: Get_Vector3_def Get_Vector2i_def Get_Vector2d_def handle_def Is_defs
      GetAsString_def is_any_of_def c_str_def element_at_def)

text \<open>The theorem with \<open>lexical_cast\<close> on plain decimal integers.\<close>

theorem empty_piece_reads_past_the_end_witness:
  "Get_Vector3 (\<lambda>v. []) lexical_cast_decimal_double (handle ''string'' (StrV ''1  2''))
     (Vector3 0 0 0) = Inl OutOfRange
   \<and> Get_Vector2i (\<lambda>v. []) lexical_cast_decimal_int (handle ''string'' (StrV ''7 ''))
       (Vector2i 0 0) = Inl OutOfRange
   \<and> Get_Vector2d (\<lambda>v. []) lexical_cast_decimal_double (handle ''string'' (StrV '' 7''))
       (Vector2d 0 0) = Inl OutOfRange"
  using empty_piece_reads_past_the_end [where lcd = lexical_cast_decimal_double
      and lci = lexical_cast_decimal_int and a = 1 and b = 2 and n = 7 and c = 7
      and to_string = "\<lambda>v. []" and outV = "Vector3 0 0 0" and outI = "Vector2i 0 0"
      and outD = "Vector2d 0 0"]
  by (simp add: lexical_cast_defs)

subsection \<open>The registry of constructed handles\<close>

text \<open>
  Claim C9. While \<open>Param::params\<close> is null, the constructor initialises the handle
  and leaves the pointer null: nothing is registered and nothing fails. While it
  points to a list, the constructor appends the new handle's address at the end, so
  after any sequence of constructions the list is the old list followed by the
  addresses in the order of construction.
\<close>

theorem registry_keeps_construction_order:
  "Param_ctor a None =
     (\<lparr>key = [], required = False, set_flag = False, typeName = [], description = []\<rparr>, None)
   \<and> snd (Param_ctor a (Some l)) = Some (l @ [a])
   \<and> construct_all as None = None
   \<and> construct_all as (Some l) = Some (l @ as)
   \<and> construct_all as (Some []) = Some as"
proof -
  have "construct_all as None = None"
    by (induction as) (simp_all add: Param_ctor_def)
  moreover have "construct_all as (Some l) = Some (l @ as)" for l
    by (induction as arbitrary: l) (simp_all add: Param_ctor_def)
  ultimately show ?thesis
    by (simp add: Param_ctor_def)
qed

section \<open>Properties of the physics parameter interface\<close>

subsection \<open>SetParam\<close>




text \<open>
  Claim C6. \<open>SetParam\<close> with the key \<open>type\<close> returns false for every value and
  leaves the engine as it was, and so it does for every key that is none of
  \<open>type\<close>, \<open>max_step_size\<close>, \<open>real_time_update_rate\<close>, \<open>real_time_factor\<close>,
  \<open>gravity\<close>, \<open>magnetic_field\<close>; each logs its warning.
\<close>

theorem SetParam_rejects_type_and_unknown_keys:
  "SetParam X ''type'' v this = (False, this, [gzwarn CannotSetType])
   \<and> (k \<notin> {''type'', ''max_step_size'', ''real_time_update_rate'', ''real_time_factor'',
             ''gravity'', ''magnetic_field''} \<longrightarrow>
        SetParam X k v this = (False, this, [gzwarn (SetParamFailed k (GetType X this))]))"
  by (simp add: SetParam_def)

theorem SetParam_rejects_type_and_unknown_keys_witness:
  "SetParam map_external ''type'' (any_string ''bullet'') engine0
     = (False, engine0, [gzwarn CannotSetType])
   \<and> SetParam map_external ''max_contacts'' (any_int 20) engine0
     = (False, engine0, [gzwarn (SetParamFailed ''max_contacts'' ''ode'')])"
  using
    SetParam_rejects_type_and_unknown_keys [where X = map_external and this = engine0
      and v = "any_string ''bullet''" and k = "''max_contacts''"]
    SetParam_rejects_type_and_unknown_keys [where X = map_external and this = engine0
      and v = "any_int 20" and k = "''max_contacts''"]
  by (simp add: map_external_def)

subsection \<open>GetParam\<close>

text \<open>
  Claim C8. \<open>GetParam(key, value)\<close> returns true exactly for the six keys \<open>type\<close>,
  \<open>max_step_size\<close>, \<open>real_time_update_rate\<close>, \<open>real_time_factor\<close>, \<open>gravity\<close>
  and \<open>magnetic_field\<close>, and then \<open>value\<close> holds what the engine has: its type
  name, its three stored doubles, and the two vectors of its description tree. For
  every other key it returns false, logs a warning and leaves \<open>value\<close> alone. What
  \<open>SetParam\<close> stored under one of the three double keys is what \<open>GetParam\<close> reads.
\<close>

theorem GetParam_keys:
  "fst (GetParam X k out this) =
     (k \<in> {''type'', ''max_step_size'', ''real_time_update_rate'', ''real_time_factor'',
            ''gravity'', ''magnetic_field''})
   \<and> GetParam X ''type'' out this = (True, any_string (GetType X this), [])
   \<and> GetParam X ''max_step_size'' out this = (True, any_double (maxStepSize this), [])
   \<and> GetParam X ''real_time_update_rate'' out this
       = (True, any_double (realTimeUpdateRate this), [])
   \<and> GetParam X ''real_time_factor'' out this
       = (True, any_double (targetRealTimeFactor this), [])
   \<and> GetParam X ''gravity'' out this
       = (True, any_Vector3 (Element_Get_Vector3 X (sdf this) ''gravity''), [])
   \<and> GetParam X ''magnetic_field'' out this
       = (True, any_Vector3 (Element_Get_Vector3 X (sdf this) ''magnetic_field''), [])
   \<and> (k \<notin> {''type'', ''max_step_size'', ''real_time_update_rate'', ''real_time_factor'',
             ''gravity'', ''magnetic_field''} \<longrightarrow>
        GetParam X k out this = (False, out, [gzwarn (GetParamFailed k (GetType X this))]))
   \<and> (k \<in> {''max_step_size'', ''real_time_update_rate'', ''real_time_factor''} \<longrightarrow>
        GetParam X k out (fst (snd (SetParam X k (any_double d) this)))
          = (True, any_double d, []))"
proof -
  have "GetParam X k out (fst (snd (SetParam X k (any_double d) this)))
          = (True, any_double d, [])"
    if "k \<in> {''max_step_size'', ''real_time_update_rate'', ''real_time_factor''}"
    using that
    by (auto simp add: GetParam_def SetParam_def any_cast_double_def SetMaxStepSize_def
        SetRealTimeUpdateRate_def SetTargetRealTimeFactor_def GetMaxStepSize_def
        GetRealTimeUpdateRate_def GetTargetRealTimeFactor_def)
  then show ?thesis
    by (simp add: GetParam_def GetMaxStepSize_def GetRealTimeUpdateRate_def
        GetTargetRealTimeFactor_def GetGravity_def)
qed

theorem GetParam_keys_witness:
  "GetParam map_external ''max_contacts'' any_empty engine0
     = (False, any_empty, [gzwarn (GetParamFailed ''max_contacts'' ''ode'')])
   \<and> GetParam map_external ''max_step_size'' any_empty
        (fst (snd (SetParam map_external ''max_step_size'' (any_double 2) engine0)))
     = (True, any_double 2, [])
   \<and> GetParam map_external ''type'' any_empty engine0 = (True, any_string ''ode'', [])"
  using
    GetParam_keys [where X = map_external and this = engine0 and out = any_empty
      and k = "''max_contacts''" and d = 2]
    GetParam_keys [where X = map_external and this = engine0 and out = any_empty
      and k = "''max_step_size''" and d = 2]
  by (simp add: map_external_def)

subsection \<open>OnPhysicsMsg\<close>

text \<open>From index \<open>i\<close> on, the index loop does what the recursion on the rest of the list does.\<close>

lemma loop_process:
  "OnPhysicsMsg_loop X msg i value this logged =
     process_entries X (drop i (parameters msg)) this logged"
proof (induction X msg i "value" this logged rule: OnPhysicsMsg_loop.induct)
  case (1 X msg i "value" this logged)
  show ?case
  proof (cases "i < parameters_size msg")
    case False
    then show ?thesis
      by (subst OnPhysicsMsg_loop.simps) (simp add: parameters_size_def)
  next
    case True
    then have rest: "drop i (parameters msg) = (parameters msg ! i) # drop (i + 1) (parameters msg)"
      by (simp add: parameters_size_def Cons_nth_drop_Suc)
    show ?thesis
    proof (cases "entry_value (parameters msg ! i)")
      case None
      with True rest 1(1) show ?thesis
        by (subst OnPhysicsMsg_loop.simps) simp
    next
      case (Some v)
      obtain ok this' l where set: "SetParam X (name (parameters msg ! i)) v this = (ok, this', l)"
        by (cases "SetParam X (name (parameters msg ! i)) v this") auto
      from True Some set 1(2) have
        "OnPhysicsMsg_loop X msg (i + 1) v this' (logged @ l) =
           process_entries X (drop (i + 1) (parameters msg)) this' (logged @ l)"
        by simp
      with True rest Some set show ?thesis
        by (subst OnPhysicsMsg_loop.simps) simp
    qed
  qed
qed

lemma OnPhysicsMsg_process:
  "OnPhysicsMsg X msg this = process_entries X (parameters msg) this []"
  by (simp add: OnPhysicsMsg_def loop_process)

lemma process_entries_state:
  "fst (process_entries X es this logged) =
     dispatch_all X
       (List.map_filter (\<lambda>e. map_option (\<lambda>v. (name e, v)) (entry_value e)) es) this"
proof (induction es arbitrary: this logged)
  case Nil
  then show ?case by (simp add: dispatch_all_def)
next
  case (Cons e es)
  show ?case
  proof (cases "entry_value e")
    case None
    with Cons show ?thesis by (simp add: dispatch_all_def)
  next
    case (Some v)
    with Cons show ?thesis
      by (simp add: dispatch_all_def split: prod.splits)
  qed
qed

lemmas has_defs =
  has_type_def has_double_value_def has_int_value_def has_string_value_def
  has_vector3d_def has_bool_value_def has_float_value_def

lemmas accessor_defs =
  double_value_def int_value_def string_value_def vector3d_def bool_value_def float_value_def

text \<open>
  Claim C4. For an entry without a type discriminator, the value handed to
  \<open>SetParam\<close> is taken from the first populated field in the order double, int,
  string, vector3d, bool, float. So an entry with \<open>int_value\<close> and \<open>string_value\<close>
  populated (and no \<open>double_value\<close>, which comes before both) is dispatched as an
  int: a message of that one entry does what \<open>SetParam\<close> does on the entry's name
  and the int.
\<close>

theorem legacy_decode_order:
  "(\<not> has_type e \<longrightarrow> has_double_value e \<longrightarrow>
      entry_value e = Some (any_double (double_value e)))
   \<and> (\<not> has_type e \<longrightarrow> \<not> has_double_value e \<longrightarrow> has_int_value e \<longrightarrow>
      entry_value e = Some (any_int (int_value e)))
   \<and> (\<not> has_type e \<longrightarrow> \<not> has_double_value e \<longrightarrow> \<not> has_int_value e \<longrightarrow>
      has_string_value e \<longrightarrow>
      entry_value e = Some (any_string (string_value e)))
   \<and> (\<not> has_type e \<longrightarrow> \<not> has_double_value e \<longrightarrow> \<not> has_int_value e \<longrightarrow>
      \<not> has_string_value e \<longrightarrow> has_vector3d e \<longrightarrow>
      entry_value e = Some (any_msgs_Vector3d (vector3d e)))
   \<and> (\<not> has_type e \<longrightarrow> \<not> has_double_value e \<longrightarrow> \<not> has_int_value e \<longrightarrow>
      \<not> has_string_value e \<longrightarrow> \<not> has_vector3d e \<longrightarrow> has_bool_value e \<longrightarrow>
      entry_value e = Some (any_bool (bool_value e)))
   \<and> (\<not> has_type e \<longrightarrow> \<not> has_double_value e \<longrightarrow> \<not> has_int_value e \<longrightarrow>
      \<not> has_string_value e \<longrightarrow> \<not> has_vector3d e \<longrightarrow> \<not> has_bool_value e \<longrightarrow>
      has_float_value e \<longrightarrow>
      entry_value e = Some (any_float (float_value e)))
   \<and> (\<not> has_type e \<longrightarrow> \<not> has_double_value e \<longrightarrow> has_int_value e \<longrightarrow>
      has_string_value e \<longrightarrow>
      OnPhysicsMsg X \<lparr>parameters = [e]\<rparr> this =
        (case SetParam X (name e) (any_int (int_value e)) this of (ok, this', l) \<Rightarrow> (this', l)))"
proof -
  have "OnPhysicsMsg X \<lparr>parameters = [e]\<rparr> this =
        (case SetParam X (name e) (any_int (int_value e)) this of (ok, this', l) \<Rightarrow> (this', l))"
    if "entry_value e = Some (any_int (int_value e))"
    using that by (simp add: OnPhysicsMsg_process split: prod.splits)
  moreover have "entry_value e = Some (any_int (int_value e))"
    if "\<not> has_type e" "\<not> has_double_value e" "has_int_value e"
    using that by (simp add: entry_value_def)
  ultimately show ?thesis
    by (simp add: entry_value_def)
qed

text \<open>
  The theorem at an entry named \<open>max_step_size\<close> with \<open>int_value\<close> 5 and
  \<open>string_value\<close> \<open>abc\<close>: it is decoded as the int 5, which \<open>SetParam\<close> then
  refuses for this key; and with \<open>double_value\<close> populated as well, as the double.
\<close>

theorem legacy_decode_order_witness:
  "entry_value ((empty_entry ''max_step_size'')
       \<lparr>opt_int_value := Some 5, opt_string_value := Some ''abc''\<rparr>) = Some (any_int 5)
   \<and> OnPhysicsMsg map_external
        \<lparr>parameters = [(empty_entry ''max_step_size'')
           \<lparr>opt_int_value := Some 5, opt_string_value := Some ''abc''\<rparr>]\<rparr> engine0
       = (engine0, [gzerr CaughtBadAnyCast])
   \<and> entry_value ((empty_entry ''max_step_size'')
       \<lparr>opt_double_value := Some 2, opt_int_value := Some 5, opt_string_value := Some ''abc''\<rparr>)
       = Some (any_double 2)
   \<and> entry_value ((empty_entry ''s'') \<lparr>opt_string_value := Some ''abc'',
         opt_bool_value := Some True\<rparr>) = Some (any_string ''abc'')
   \<and> entry_value ((empty_entry ''v'') \<lparr>opt_vector3d := Some (msgs_Vector3d 0 0 1),
         opt_float_value := Some 1\<rparr>) = Some (any_msgs_Vector3d (msgs_Vector3d 0 0 1))
   \<and> entry_value ((empty_entry ''b'') \<lparr>opt_bool_value := Some True,
         opt_float_value := Some 1\<rparr>) = Some (any_bool True)
   \<and> entry_value ((empty_entry ''f'') \<lparr>opt_float_value := Some 1\<rparr>) = Some (any_float 1)"
proof -
  have set: "SetParam map_external ''max_step_size'' (any_int 5) engine0
      = (False, engine0, [gzerr CaughtBadAnyCast])"
    by (simp add: SetParam_def any_cast_double_def)
  show ?thesis
    using
      legacy_decode_order [where X = map_external and this = engine0 and
        e = "(empty_entry ''max_step_size'')
               \<lparr>opt_int_value := Some 5, opt_string_value := Some ''abc''\<rparr>"]
      legacy_decode_order [where X = map_external and this = engine0 and
        e = "(empty_entry ''max_step_size'')
               \<lparr>opt_double_value := Some 2, opt_int_value := Some 5,
                opt_string_value := Some ''abc''\<rparr>"]
      legacy_decode_order [where X = map_external and this = engine0 and
        e = "(empty_entry ''s'') \<lparr>opt_string_value := Some ''abc'', opt_bool_value := Some True\<rparr>"]
      legacy_decode_order [where X = map_external and this = engine0 and
        e = "(empty_entry ''v'') \<lparr>opt_vector3d := Some (msgs_Vector3d 0 0 1),
               opt_float_value := Some 1\<rparr>"]
      legacy_decode_order [where X = map_external and this = engine0 and
        e = "(empty_entry ''b'') \<lparr>opt_bool_value := Some True, opt_float_value := Some 1\<rparr>"]
      legacy_decode_order [where X = map_external and this = engine0 and
        e = "(empty_entry ''f'') \<lparr>opt_float_value := Some 1\<rparr>"]
    by (simp add: has_defs accessor_defs empty_entry_def set)
qed

text \<open>
  Claim C7. \<open>OnPhysicsMsg\<close> goes through the entries in message order and hands
  each decoded (key, value) pair to \<open>SetParam\<close>: the engine it leaves is the one
  obtained by feeding the decoded pairs, in order, to \<open>SetParam\<close>, each call
  starting from the engine the previous one left, whether that call returned true
  or false. An entry with no type tag and no populated field yields no pair and only
  a warning. So of three entries whose second is such an entry, the first and the
  third are dispatched, with the warning logged between their messages; and of three
  entries that all yield a value, all three are dispatched whatever the flags that
  \<open>SetParam\<close> returns.
\<close>

theorem OnPhysicsMsg_dispatches_in_order:
  "fst (OnPhysicsMsg X msg this) = dispatch_all X (DecodeUpdateMessage msg) this
   \<and> (\<not> has_type e \<longrightarrow> \<not> has_double_value e \<longrightarrow> \<not> has_int_value e \<longrightarrow>
      \<not> has_string_value e \<longrightarrow> \<not> has_vector3d e \<longrightarrow> \<not> has_bool_value e \<longrightarrow>
      \<not> has_float_value e \<longrightarrow> entry_value e = None)
   \<and> (entry_value e1 = Some v1 \<longrightarrow> entry_value e2 = None \<longrightarrow> entry_value e3 = Some v3 \<longrightarrow>
      SetParam X (name e1) v1 this = (ok1, s1, l1) \<longrightarrow>
      SetParam X (name e3) v3 s1 = (ok3, s3, l3) \<longrightarrow>
      OnPhysicsMsg X \<lparr>parameters = [e1, e2, e3]\<rparr> this
        = (s3, l1 @ [gzwarn EmptyParameterMsg] @ l3))
   \<and> (entry_value e1 = Some v1 \<longrightarrow> entry_value e2 = Some v2 \<longrightarrow> entry_value e3 = Some v3 \<longrightarrow>
      SetParam X (name e1) v1 this = (ok1, s1, l1) \<longrightarrow>
      SetParam X (name e2) v2 s1 = (ok2, s2, l2) \<longrightarrow>
      SetParam X (name e3) v3 s2 = (ok3', s3', l3') \<longrightarrow>
      OnPhysicsMsg X \<lparr>parameters = [e1, e2, e3]\<rparr> this = (s3', l1 @ l2 @ l3'))"
proof -
  have "fst (OnPhysicsMsg X msg this) = dispatch_all X (DecodeUpdateMessage msg) this"
    by (simp add: OnPhysicsMsg_process process_entries_state DecodeUpdateMessage_def)
  moreover have "entry_value e = None"
    if "\<not> has_type e" "\<not> has_double_value e" "\<not> has_int_value e" "\<not> has_string_value e"
      "\<not> has_vector3d e" "\<not> has_bool_value e" "\<not> has_float_value e"
    using that by (simp add: entry_value_def)
  ultimately show ?thesis
    by (simp add: OnPhysicsMsg_process)
qed

text \<open>
  The theorem at two messages of three entries on the engine \<open>engine0\<close>: a step
  size, an entry with nothing populated, a real-time factor; and a step size, an
  unknown key that \<open>SetParam\<close> refuses, a real-time factor. Both leave the step size
  and the factor set.
\<close>

theorem OnPhysicsMsg_dispatches_in_order_witness:
  "maxStepSize (fst (OnPhysicsMsg map_external
      \<lparr>parameters = [(empty_entry ''max_step_size'')
           \<lparr>param_type := Some DOUBLE_TYPE, opt_double_value := Some (1 / 500)\<rparr>,
         empty_entry ''gravity'',
         (empty_entry ''real_time_factor'') \<lparr>opt_double_value := Some 2\<rparr>]\<rparr> engine0)) = 1 / 500
   \<and> targetRealTimeFactor (fst (OnPhysicsMsg map_external
      \<lparr>parameters = [(empty_entry ''max_step_size'')
           \<lparr>param_type := Some DOUBLE_TYPE, opt_double_value := Some (1 / 500)\<rparr>,
         empty_entry ''gravity'',
         (empty_entry ''real_time_factor'') \<lparr>opt_double_value := Some 2\<rparr>]\<rparr> engine0)) = 2
   \<and> snd (OnPhysicsMsg map_external
      \<lparr>parameters = [(empty_entry ''max_step_size'')
           \<lparr>param_type := Some DOUBLE_TYPE, opt_double_value := Some (1 / 500)\<rparr>,
         empty_entry ''gravity'',
         (empty_entry ''real_time_factor'') \<lparr>opt_double_value := Some 2\<rparr>]\<rparr> engine0)
       = [gzwarn EmptyParameterMsg]
   \<and> maxStepSize (fst (OnPhysicsMsg map_external
      \<lparr>parameters = [(empty_entry ''max_step_size'')
           \<lparr>param_type := Some DOUBLE_TYPE, opt_double_value := Some (1 / 500)\<rparr>,
         (empty_entry ''max_contacts'') \<lparr>opt_int_value := Some 20\<rparr>,
         (empty_entry ''real_time_factor'') \<lparr>opt_double_value := Some 2\<rparr>]\<rparr> engine0)) = 1 / 500
   \<and> targetRealTimeFactor (fst (OnPhysicsMsg map_external
      \<lparr>parameters = [(empty_entry ''max_step_size'')
           \<lparr>param_type := Some DOUBLE_TYPE, opt_double_value := Some (1 / 500)\<rparr>,
         (empty_entry ''max_contacts'') \<lparr>opt_int_value := Some 20\<rparr>,
         (empty_entry ''real_time_factor'') \<lparr>opt_double_value := Some 2\<rparr>]\<rparr> engine0)) = 2
   \<and> snd (OnPhysicsMsg map_external
      \<lparr>parameters = [(empty_entry ''max_step_size'')
           \<lparr>param_type := Some DOUBLE_TYPE, opt_double_value := Some (1 / 500)\<rparr>,
         (empty_entry ''max_contacts'') \<lparr>opt_int_value := Some 20\<rparr>,
         (empty_entry ''real_time_factor'') \<lparr>opt_double_value := Some 2\<rparr>]\<rparr> engine0)
       = [gzwarn (SetParamFailed ''max_contacts'' ''ode'')]"
proof -
  define e1 where "e1 = (empty_entry ''max_step_size'')
           \<lparr>param_type := Some DOUBLE_TYPE, opt_double_value := Some (1 / 500)\<rparr>"
  define e2 where "e2 = empty_entry ''gravity''"
  define e2' where "e2' = (empty_entry ''max_contacts'') \<lparr>opt_int_value := Some 20\<rparr>"
  define e3 where "e3 = (empty_entry ''real_time_factor'') \<lparr>opt_double_value := Some 2\<rparr>"
  define s1 where "s1 = SetMaxStepSize map_external (1 / 500) engine0"
  define s3 where "s3 = SetTargetRealTimeFactor map_external 2 s1"
  have ev: "entry_value e1 = Some (any_double (1 / 500))" "entry_value e2 = None"
    "entry_value e2' = Some (any_int 20)" "entry_value e3 = Some (any_double 2)"
    by (simp_all add: e1_def e2_def e2'_def e3_def entry_value_def has_defs accessor_defs
        empty_entry_def)
  have nm: "name e1 = ''max_step_size''" "name e2' = ''max_contacts''"
    "name e3 = ''real_time_factor''"
    by (simp_all add: e1_def e2'_def e3_def empty_entry_def)
  have set1: "SetParam map_external (name e1) (any_double (1 / 500)) engine0 = (True, s1, [])"
    by (simp add: nm SetParam_def any_cast_double_def s1_def)
  have set2: "SetParam map_external (name e2') (any_int 20) s1
      = (False, s1, [gzwarn (SetParamFailed ''max_contacts'' ''ode'')])"
    by (simp add: nm SetParam_def map_external_def)
  have set3: "SetParam map_external (name e3) (any_double 2) s1 = (True, s3, [])"
    by (simp add: nm SetParam_def any_cast_double_def s3_def)
  have fields: "maxStepSize s3 = 1 / 500" "targetRealTimeFactor s3 = 2"
    by (simp_all add: s3_def s1_def SetTargetRealTimeFactor_def SetMaxStepSize_def)
  note T = OnPhysicsMsg_dispatches_in_order [where X = map_external and this = engine0
      and ?e1.0 = e1 and ?e3.0 = e3 and ?v1.0 = "any_double (1 / 500)" and ?v3.0 = "any_double 2"
      and ?ok1.0 = True and ?s1.0 = s1 and ?l1.0 = "[]"]
  have skip: "OnPhysicsMsg map_external \<lparr>parameters = [e1, e2, e3]\<rparr> engine0
      = (s3, [gzwarn EmptyParameterMsg])"
    using T [where ?e2.0 = e2 and ?ok3.0 = True and ?s3.0 = s3 and ?l3.0 = "[]"]
      ev set1 set3 by simp
  have refuse: "OnPhysicsMsg map_external \<lparr>parameters = [e1, e2', e3]\<rparr> engine0
      = (s3, [gzwarn (SetParamFailed ''max_contacts'' ''ode'')])"
    using T [where ?e2.0 = e2' and ?v2.0 = "any_int 20" and ?ok2.0 = False and ?s2.0 = s1
        and ?l2.0 = "[gzwarn (SetParamFailed ''max_contacts'' ''ode'')]"
        and ?ok3'.0 = True and ?s3'.0 = s3 and ?l3'.0 = "[]"]
      ev set1 set2 set3 by simp
  show ?thesis
    using skip refuse fields
    unfolding e1_def e2_def e2'_def e3_def by simp
qed

end
